theory Spec2Isabelle
  imports Complex_Main "HOL-Library.Sublist"
begin

section \<open>Python strings, slices and searches\<close>

text \<open>
  A Python \<open>str\<close> is modelled as a \<open>string\<close>: each \<open>char\<close> stands for one code point
  below 256, so \<open>length\<close> is Python's \<open>len\<close> on such text. Python integers are \<open>int\<close>.
\<close>

definition py_isspace :: "char \<Rightarrow> bool" where
  \<comment> \<open>The code points below 256 that \<open>str.split()\<close> treats as whitespace.\<close>
  "py_isspace c = (of_char c \<in> {9, 10, 11, 12, 13, 28, 29, 30, 31, 32, 133, 160 :: nat})"

fun split_acc :: "string \<Rightarrow> string \<Rightarrow> string list" where
  "split_acc cur [] = (if cur = [] then [] else [cur])"
| "split_acc cur (c # cs) =
     (if py_isspace c then (if cur = [] then split_acc [] cs else cur # split_acc [] cs)
      else split_acc (cur @ [c]) cs)"

definition py_split :: "string \<Rightarrow> string list" where
  \<comment> \<open>\<open>text.split()\<close>: the maximal runs of non-whitespace characters, in order.\<close>
  "py_split text = split_acc [] text"

fun py_join :: "string \<Rightarrow> string list \<Rightarrow> string" where
  "py_join sep [] = []"
| "py_join sep [w] = w"
| "py_join sep (w # v # ws) = w @ sep @ py_join sep (v # ws)"

definition py_slice :: "'a list \<Rightarrow> int \<Rightarrow> int \<Rightarrow> 'a list" where
  \<comment> \<open>\<open>xs[start:stop]\<close>: a negative bound counts from the end, then both are clamped.\<close>
  "py_slice xs start stop =
     (let n = int (length xs);
          lo = (if start < 0 then max (start + n) 0 else min start n);
          hi = (if stop < 0 then max (stop + n) 0 else min stop n)
      in take (nat (hi - lo)) (drop (nat lo) xs))"

fun first_match :: "'a list \<Rightarrow> 'a list \<Rightarrow> nat option" where
  "first_match sub [] = (if sub = [] then Some 0 else None)"
| "first_match sub (x # xs) =
     (if prefix sub (x # xs) then Some 0 else map_option Suc (first_match sub xs))"

definition py_find :: "string \<Rightarrow> string \<Rightarrow> int \<Rightarrow> int" where
  \<comment> \<open>\<open>text.find(sub, start)\<close>: the lowest index at or after \<open>start\<close> where \<open>sub\<close>
      occurs, and \<open>-1\<close> when there is none.\<close>
  "py_find text sub start =
     (let n = int (length text);
          s = (if start < 0 then max (start + n) 0 else start)
      in if s > n then -1
         else (case first_match sub (drop (nat s) text) of
                 None \<Rightarrow> -1
               | Some i \<Rightarrow> s + int i))"

section \<open>The chunker (scripts/ingest.py)\<close>

record chunk =
  c_text :: string
  c_start_char :: int
  c_end_char :: int

text \<open>
  The \<open>while\<close> loop of \<open>chunk_text\<close>, with its variables \<open>start_idx\<close>, \<open>char_pos\<close> and
  \<open>chunks\<close> as arguments. The loop need not end for every parameter pair, so a run that
  never returns is the value \<open>None\<close>.
\<close>

partial_function (option) chunk_loop ::
  "string \<Rightarrow> string list \<Rightarrow> int \<Rightarrow> int \<Rightarrow> int \<Rightarrow> int \<Rightarrow> chunk list \<Rightarrow> chunk list option"
where
  "chunk_loop text words max_tokens overlap_tokens start_idx char_pos chunks =
     (if start_idx < int (length words) then
        (let end_idx = min (start_idx + max_tokens) (int (length words));
             chunk_words = py_slice words start_idx end_idx;
             chunk_txt = py_join '' '' chunk_words;
             start_char = (case chunk_words of
                             [] \<Rightarrow> char_pos
                           | w # _ \<Rightarrow> py_find text w char_pos);
             end_char = start_char + int (length chunk_txt);
             chunks' = chunks @ [\<lparr>c_text = chunk_txt, c_start_char = start_char,
                                   c_end_char = end_char\<rparr>]
         in if end_idx \<ge> int (length words) then Some chunks'
            else chunk_loop text words max_tokens overlap_tokens
                   (end_idx - overlap_tokens) end_char chunks')
      else Some chunks)"

declare chunk_loop.simps [code]

definition chunk_text :: "string \<Rightarrow> int \<Rightarrow> int \<Rightarrow> chunk list option" where
  "chunk_text text max_tokens overlap_tokens =
     chunk_loop text (py_split text) max_tokens overlap_tokens 0 0 []"

definition window_chunk :: "string \<Rightarrow> string list \<Rightarrow> int \<Rightarrow> int \<Rightarrow> int \<Rightarrow> chunk" where
  \<comment> \<open>The chunk one iteration of the loop appends, from \<open>start_idx\<close>, \<open>end_idx\<close> and
      \<open>char_pos\<close>: the body of the loop, named for the proofs.\<close>
  "window_chunk text words start_idx end_idx char_pos =
     (let chunk_words = py_slice words start_idx end_idx;
          chunk_txt = py_join '' '' chunk_words;
          start_char = (case chunk_words of
                          [] \<Rightarrow> char_pos
                        | w # _ \<Rightarrow> py_find text w char_pos)
      in \<lparr>c_text = chunk_txt, c_start_char = start_char,
           c_end_char = start_char + int (length chunk_txt)\<rparr>)"

definition space_out :: "string \<Rightarrow> string" where
  \<comment> \<open>The text with every whitespace character written as a space.\<close>
  "space_out s = map (\<lambda>c. if py_isspace c then CHR '' '' else c) s"

definition well_spaced :: "string \<Rightarrow> bool" where
  \<comment> \<open>After its leading whitespace the text is its words, one whitespace character
      between neighbours and none after the last word.\<close>
  "well_spaced text =
     (let body = dropWhile py_isspace (space_out text)
      in body \<noteq> [] \<and> body = py_join '' '' (py_split text))"

section \<open>Settings and retrieval results (src/config.py, src/services/retrieval.py)\<close>

text \<open>
  Scores and thresholds are Python floats; they are modelled as real numbers, which
  agrees with float comparison on every finite value (a NaN score is outside the model).
\<close>

record Settings =
  confidence_high_threshold :: real
  confidence_low_threshold :: real
  groq_model :: string

definition default_settings :: Settings where
  "default_settings =
     \<lparr>confidence_high_threshold = 0.7, confidence_low_threshold = 0.4,
      groq_model = ''llama-3.1-8b-instant''\<rparr>"

record RetrievalResult =
  r_chunk_text :: string
  r_chapter_slug :: string
  r_section_id :: "string option"
  r_chunk_index :: int
  r_score :: real
  r_start_char :: int
  r_end_char :: int

definition get_confidence_level :: "Settings \<Rightarrow> real \<Rightarrow> string" where
  "get_confidence_level settings top_score =
     (if top_score \<ge> confidence_high_threshold settings then ''high''
      else if top_score \<ge> confidence_low_threshold settings then ''medium''
      else ''low'')"

datatype ConfidenceLevel = HIGH | MEDIUM | LOW

definition ConfidenceLevel_of :: "string \<Rightarrow> ConfidenceLevel option" where
  \<comment> \<open>The enum constructor \<open>ConfidenceLevel(value)\<close>; \<open>None\<close> is its \<open>ValueError\<close>.\<close>
  "ConfidenceLevel_of v =
     (if v = ''high'' then Some HIGH
      else if v = ''medium'' then Some MEDIUM
      else if v = ''low'' then Some LOW
      else None)"

fun confidence_rank :: "string \<Rightarrow> nat" where
  \<comment> \<open>The order low < medium < high on the three level names.\<close>
  "confidence_rank v = (if v = ''high'' then 2 else if v = ''medium'' then 1 else 0)"

definition CHAPTER_TITLES :: "(string \<times> string) list" where
  "CHAPTER_TITLES =
     [(''intro'', ''Introduction to Physical AI''),
      (''humanoid-basics'', ''Basics of Humanoid Robotics''),
      (''ros2-fundamentals'', ''ROS 2 Fundamentals''),
      (''digital-twin'', ''Digital Twin Simulation''),
      (''vla-systems'', ''Vision-Language-Action Systems''),
      (''capstone'', ''Capstone Project'')]"

definition py_replace_char :: "char \<Rightarrow> char \<Rightarrow> string \<Rightarrow> string" where
  \<comment> \<open>\<open>s.replace(a, b)\<close> for one-character \<open>a\<close> and \<open>b\<close>.\<close>
  "py_replace_char a b s = map (\<lambda>c. if c = a then b else c) s"

definition is_upper_char :: "char \<Rightarrow> bool" where
  \<comment> \<open>The upper-case letters below 256: A-Z, and 0xC0-0xDE without the sign 0xD7.\<close>
  "is_upper_char c =
     (let n = (of_char c :: nat)
      in (65 \<le> n \<and> n \<le> 90) \<or> (192 \<le> n \<and> n \<le> 222 \<and> n \<noteq> 215))"

definition is_lower_char :: "char \<Rightarrow> bool" where
  \<comment> \<open>The lower-case letters whose upper-case form is 32 below them: a-z, and
      0xE0-0xFE without the sign 0xF7.\<close>
  "is_lower_char c =
     (let n = (of_char c :: nat)
      in (97 \<le> n \<and> n \<le> 122) \<or> (224 \<le> n \<and> n \<le> 254 \<and> n \<noteq> 247))"

definition is_cased_only :: "char \<Rightarrow> bool" where
  \<comment> \<open>The other cased code points below 256: 0xAA and 0xBA have no other case form;
      0xB5, 0xDF and 0xFF are lower-case with a title-case form that is not a code point
      below 256.\<close>
  "is_cased_only c = ((of_char c :: nat) \<in> {170, 181, 186, 223, 255})"

fun title_from :: "bool \<Rightarrow> string \<Rightarrow> string" where
  "title_from prev_cased [] = []"
| "title_from prev_cased (c # cs) =
     (if is_upper_char c then
        (if prev_cased then char_of ((of_char c :: nat) + 32) else c) # title_from True cs
      else if is_lower_char c then
        (if prev_cased then c else char_of ((of_char c :: nat) - 32)) # title_from True cs
      else if is_cased_only c then c # title_from True cs
      else c # title_from False cs)"

definition py_title :: "string \<Rightarrow> string" where
  \<comment> \<open>\<open>s.title()\<close>: a cased character after an uncased one takes its title-case form,
      one after a cased character its lower-case form. The three characters 0xB5, 0xDF
      and 0xFF at the start of a word are left as they are: Python's result there has
      code points from 256 on, which a \<open>string\<close> cannot hold.\<close>
  "py_title s = title_from False s"

definition get_chapter_title :: "string \<Rightarrow> string" where
  "get_chapter_title chapter_slug =
     (case map_of CHAPTER_TITLES chapter_slug of
        Some t \<Rightarrow> t
      | None \<Rightarrow> py_title (py_replace_char CHR ''-'' CHR '' '' chapter_slug))"

section \<open>The generator (src/services/generation.py)\<close>

datatype py_exception = ValidationError | ValueError | IndexError | UpstreamError string

text \<open>
  The chat-completion request sent to the external model, and the world the handlers run
  in: the log of requests sent so far and the supply of fresh identifiers for \<open>uuid4()\<close>.
\<close>

record llm_request =
  lr_model :: string
  lr_system :: string
  lr_user :: string
  lr_temperature :: real
  lr_max_tokens :: int

record world =
  llm_calls :: "llm_request list"
  uuid_next :: nat

definition uuid4 :: "world \<Rightarrow> nat \<times> world" where
  "uuid4 w = (uuid_next w, w\<lparr>uuid_next := Suc (uuid_next w)\<rparr>)"

definition SYSTEM_PROMPT :: string where
  "SYSTEM_PROMPT =
     ''You are an AI teaching assistant for the \"Physical AI & Humanoid Robotics\" textbook. Your role is to help students understand the textbook content.\<newline>\<newline>'' @
     ''CRITICAL RULES:\<newline>'' @
     ''1. ONLY answer questions using the provided textbook context. Do not use any external knowledge.\<newline>'' @
     ''2. If the context does not contain enough information to answer the question, say \"This topic may not be covered in this textbook\" or \"I don't have enough information from the textbook to answer this.\"\<newline>'' @
     ''3. Always cite the specific chapter when providing information.\<newline>'' @
     ''4. Keep answers clear, concise, and educational.\<newline>'' @
     ''5. If asked about topics outside the textbook scope, politely redirect to the textbook content.\<newline>\<newline>'' @
     ''The textbook covers:\<newline>'' @
     ''- Chapter 1: Introduction to Physical AI\<newline>'' @
     ''- Chapter 2: Basics of Humanoid Robotics\<newline>'' @
     ''- Chapter 3: ROS 2 Fundamentals\<newline>'' @
     ''- Chapter 4: Digital Twin Simulation (Gazebo + Isaac Sim)\<newline>'' @
     ''- Chapter 5: Vision-Language-Action Systems\<newline>'' @
     ''- Chapter 6: Capstone Project''"

fun str_nat :: "nat \<Rightarrow> string" where
  "str_nat n =
     (if n < 10 then [char_of (48 + n)]
      else str_nat (n div 10) @ [char_of (48 + n mod 10)])"

fun context_parts :: "nat \<Rightarrow> RetrievalResult list \<Rightarrow> string list" where
  "context_parts i [] = []"
| "context_parts i (result # results) =
     (''[Source '' @ str_nat i @ '': '' @
        py_title (py_replace_char CHR ''-'' CHR '' '' (r_chapter_slug result)) @
        '']\<newline>'' @ r_chunk_text result)
     # context_parts (Suc i) results"

definition format_context :: "RetrievalResult list \<Rightarrow> string" where
  "format_context results =
     (if results = [] then ''No relevant content found in the textbook.''
      else py_join ''\<newline>\<newline>'' (context_parts 1 results))"

definition user_message :: "string \<Rightarrow> string \<Rightarrow> string option \<Rightarrow> string" where
  \<comment> \<open>The user turn built by \<open>generate_response\<close>; an absent or empty \<open>selected_text\<close>
      is falsy.\<close>
  "user_message query context selected_text =
     (case selected_text of
        Some (c # cs) \<Rightarrow>
          ''The student has selected the following text from the textbook:\<newline>\<newline>\"'' @
          (c # cs) @ ''\"\<newline>\<newline>They are asking: '' @ query @
          ''\<newline>\<newline>Relevant textbook context:\<newline>'' @ context @
          ''\<newline>\<newline>Please help the student understand the selected text and answer their question based on the textbook content.''
      | _ \<Rightarrow>
          ''Student question: '' @ query @
          ''\<newline>\<newline>Relevant textbook context:\<newline>'' @ context @
          ''\<newline>\<newline>Please answer the student's question based on the textbook content provided.'')"

definition generate_response ::
  "(llm_request \<Rightarrow> py_exception + string) \<Rightarrow> Settings \<Rightarrow> string \<Rightarrow> RetrievalResult list \<Rightarrow>
   string option \<Rightarrow> world \<Rightarrow> (py_exception + string) \<times> world" where
  \<comment> \<open>\<open>llm\<close> is the external chat-completion service: it answers a request or raises.\<close>
  "generate_response llm settings query context_results selected_text w =
     (let context = format_context context_results;
          req = \<lparr>lr_model = groq_model settings, lr_system = SYSTEM_PROMPT,
                 lr_user = user_message query context selected_text,
                 lr_temperature = 0.3, lr_max_tokens = 1000\<rparr>
      in (llm req, w\<lparr>llm_calls := llm_calls w @ [req]\<rparr>))"

definition generate_low_confidence_response :: "string \<Rightarrow> string" where
  "generate_low_confidence_response query =
     ''I couldn't find enough relevant information in the textbook to answer '' @
     ''your question about this topic. This may be because:\<newline>\<newline>'' @
     ''1. The topic isn't covered in this textbook\<newline>'' @
     ''2. The question is phrased differently than the textbook content\<newline>'' @
     ''3. This is an advanced topic beyond the scope of this course\<newline>\<newline>'' @
     ''Try rephrasing your question, or ask about specific topics from the '' @
     ''table of contents: Introduction to Physical AI, Humanoid Robotics, '' @
     ''ROS 2, Digital Twins, or VLA Systems.''"

section \<open>The chat endpoints (src/api/chat.py, src/models/schemas.py)\<close>

record Source =
  s_chapter_slug :: string
  s_chapter_title :: string
  s_section_id :: "string option"
  s_section_title :: "string option"
  s_excerpt :: string
  s_score :: real

definition Source_new ::
  "string \<Rightarrow> string \<Rightarrow> string option \<Rightarrow> string option \<Rightarrow> string \<Rightarrow> real \<Rightarrow>
   py_exception + Source" where
  \<comment> \<open>The validating constructor: \<open>excerpt\<close> has \<open>max_length=200\<close>, \<open>score\<close> has
      \<open>ge=-1, le=1\<close>.\<close>
  "Source_new chapter_slug chapter_title section_id section_title excerpt score =
     (if length excerpt \<le> 200 \<and> -1 \<le> score \<and> score \<le> 1 then
        Inr \<lparr>s_chapter_slug = chapter_slug, s_chapter_title = chapter_title,
             s_section_id = section_id, s_section_title = section_title,
             s_excerpt = excerpt, s_score = score\<rparr>
      else Inl ValidationError)"

definition py_round3 :: "real \<Rightarrow> real" where
  \<comment> \<open>\<open>round(x, 3)\<close>: to the nearest multiple of 0.001, a tie going to the even one.\<close>
  "py_round3 x =
     (let y = x * 1000; f = \<lfloor>y\<rfloor>; d = y - of_int f
      in of_int (if d < 1 / 2 then f else if 1 / 2 < d then f + 1
                 else if even f then f else f + 1) / 1000)"

fun split_on :: "char \<Rightarrow> string \<Rightarrow> string \<Rightarrow> string list" where
  \<comment> \<open>\<open>s.split(d)\<close> for a one-character separator, with the piece read so far.\<close>
  "split_on d cur [] = [cur]"
| "split_on d cur (c # cs) =
     (if c = d then cur # split_on d [] cs else split_on d (cur @ [c]) cs)"

definition section_title_of :: "string option \<Rightarrow> py_exception + string option" where
  "section_title_of section_id =
     (case section_id of
        None \<Rightarrow> Inr None
      | Some sid \<Rightarrow>
          if sid \<noteq> [] \<and> CHR ''#'' \<in> set sid then
            (case split_on CHR ''#'' [] sid of
               _ # p # _ \<Rightarrow> Inr (Some (py_title (py_replace_char CHR ''-'' CHR '' '' p)))
             | _ \<Rightarrow> Inl IndexError)
          else Inr None)"

definition make_source :: "RetrievalResult \<Rightarrow> py_exception + Source" where
  \<comment> \<open>One iteration of the loop of \<open>build_sources\<close>.\<close>
  "make_source result =
     (case section_title_of (r_section_id result) of
        Inl e \<Rightarrow> Inl e
      | Inr section_title \<Rightarrow>
          Source_new (r_chapter_slug result) (get_chapter_title (r_chapter_slug result))
            (r_section_id result) section_title
            (if length (r_chunk_text result) > 200 then take 200 (r_chunk_text result)
             else r_chunk_text result)
            (py_round3 (r_score result)))"

fun build_sources :: "RetrievalResult list \<Rightarrow> py_exception + Source list" where
  "build_sources [] = Inr []"
| "build_sources (result # results) =
     (case make_source result of
        Inl e \<Rightarrow> Inl e
      | Inr src \<Rightarrow>
          (case build_sources results of
             Inl e \<Rightarrow> Inl e
           | Inr sources \<Rightarrow> Inr (src # sources)))"

record ChatRequest =
  q_message :: string
  q_session_id :: "nat option"

record ContextualChatRequest =
  cq_message :: string
  cq_selected_text :: string
  cq_chapter_slug :: "string option"
  cq_session_id :: "nat option"

record ChatResponse =
  message_id :: nat
  session_id :: nat
  answer :: string
  confidence :: ConfidenceLevel
  sources :: "Source list"
  disclaimer :: "string option"

record HTTPException =
  status_code :: nat
  detail_error :: string
  detail_code :: string
  detail_cause :: py_exception

definition chat_response ::
  "nat option \<Rightarrow> string \<Rightarrow> string \<Rightarrow> Source list \<Rightarrow> string option \<Rightarrow> world \<Rightarrow>
   (py_exception + ChatResponse) \<times> world" where
  \<comment> \<open>The \<open>return ChatResponse(...)\<close> shared by both handlers: \<open>uuid4()\<close> for the message,
      then for the session when the request carries none.\<close>
  "chat_response req_session answer_text conf srcs disc w =
     (let (mid, w1) = uuid4 w;
          (sid, w2) = (case req_session of Some s \<Rightarrow> (s, w1) | None \<Rightarrow> uuid4 w1)
      in case ConfidenceLevel_of conf of
           None \<Rightarrow> (Inl ValueError, w2)
         | Some level \<Rightarrow>
             (Inr \<lparr>message_id = mid, session_id = sid, answer = answer_text,
                   confidence = level, sources = srcs, disclaimer = disc\<rparr>, w2))"

definition internal_error :: "string \<Rightarrow> py_exception \<Rightarrow> HTTPException" where
  \<comment> \<open>The \<open>except Exception\<close> clause of a handler.\<close>
  "internal_error msg e =
     \<lparr>status_code = 500, detail_error = msg, detail_code = ''INTERNAL_ERROR'',
      detail_cause = e\<rparr>"

definition top_score_of :: "RetrievalResult list \<Rightarrow> real" where
  \<comment> \<open>\<open>results[0].score if results else 0\<close>\<close>
  "top_score_of results = (case results of [] \<Rightarrow> 0 | r # _ \<Rightarrow> r_score r)"

definition chat_body ::
  "(string \<Rightarrow> string option \<Rightarrow> py_exception + RetrievalResult list) \<Rightarrow>
   (llm_request \<Rightarrow> py_exception + string) \<Rightarrow> Settings \<Rightarrow> ChatRequest \<Rightarrow> world \<Rightarrow>
   (py_exception + ChatResponse) \<times> world" where
  \<comment> \<open>The \<open>try\<close> block of \<open>send_chat_message\<close>; \<open>search\<close> is \<open>search_similar\<close>, the
      embedding model and the vector store behind it.\<close>
  "chat_body search llm settings request w =
     (case search (q_message request) None of
        Inl e \<Rightarrow> (Inl e, w)
      | Inr results \<Rightarrow>
          (let top_score = top_score_of results;
               conf = get_confidence_level settings top_score
           in if conf = ''low'' then
                chat_response (q_session_id request)
                  (generate_low_confidence_response (q_message request)) conf []
                  (Some ''This topic may not be covered in the textbook.'') w
              else
                (case generate_response llm settings (q_message request) results None w of
                   (Inl e, w1) \<Rightarrow> (Inl e, w1)
                 | (Inr ans, w1) \<Rightarrow>
                     (case build_sources results of
                        Inl e \<Rightarrow> (Inl e, w1)
                      | Inr srcs \<Rightarrow>
                          chat_response (q_session_id request) ans conf srcs
                            (if conf = ''medium'' then
                               Some ''Based on limited context from the textbook. The answer may be incomplete.''
                             else None) w1))))"

definition send_chat_message ::
  "(string \<Rightarrow> string option \<Rightarrow> py_exception + RetrievalResult list) \<Rightarrow>
   (llm_request \<Rightarrow> py_exception + string) \<Rightarrow> Settings \<Rightarrow> ChatRequest \<Rightarrow> world \<Rightarrow>
   (HTTPException + ChatResponse) \<times> world" where
  "send_chat_message search llm settings request w =
     (case chat_body search llm settings request w of
        (Inl e, w') \<Rightarrow> (Inl (internal_error ''Failed to process chat request'' e), w')
      | (Inr response, w') \<Rightarrow> (Inr response, w'))"

definition contextual_body ::
  "(string \<Rightarrow> string option \<Rightarrow> py_exception + RetrievalResult list) \<Rightarrow>
   (llm_request \<Rightarrow> py_exception + string) \<Rightarrow> Settings \<Rightarrow> ContextualChatRequest \<Rightarrow> world \<Rightarrow>
   (py_exception + ChatResponse) \<times> world" where
  \<comment> \<open>The \<open>try\<close> block of \<open>send_contextual_message\<close>.\<close>
  "contextual_body search llm settings request w =
     (case search (cq_message request) (cq_chapter_slug request) of
        Inl e \<Rightarrow> (Inl e, w)
      | Inr results \<Rightarrow>
          (let top_score = top_score_of results;
               conf = get_confidence_level settings top_score
           in if conf = ''low'' then
                (case generate_response llm settings (cq_message request) results
                        (Some (cq_selected_text request)) w of
                   (Inl e, w1) \<Rightarrow> (Inl e, w1)
                 | (Inr ans, w1) \<Rightarrow>
                     (case (if results \<noteq> [] then build_sources results else Inr []) of
                        Inl e \<Rightarrow> (Inl e, w1)
                      | Inr srcs \<Rightarrow>
                          chat_response (cq_session_id request) ans ''medium'' srcs
                            (Some ''Response based primarily on the selected text.'') w1))
              else
                (case generate_response llm settings (cq_message request) results
                        (Some (cq_selected_text request)) w of
                   (Inl e, w1) \<Rightarrow> (Inl e, w1)
                 | (Inr ans, w1) \<Rightarrow>
                     (case build_sources results of
                        Inl e \<Rightarrow> (Inl e, w1)
                      | Inr srcs \<Rightarrow>
                          chat_response (cq_session_id request) ans conf srcs
                            (if conf = ''medium'' then
                               Some ''Based on the selected text and limited textbook context.''
                             else None) w1))))"

definition send_contextual_message ::
  "(string \<Rightarrow> string option \<Rightarrow> py_exception + RetrievalResult list) \<Rightarrow>
   (llm_request \<Rightarrow> py_exception + string) \<Rightarrow> Settings \<Rightarrow> ContextualChatRequest \<Rightarrow> world \<Rightarrow>
   (HTTPException + ChatResponse) \<times> world" where
  "send_contextual_message search llm settings request w =
     (case contextual_body search llm settings request w of
        (Inl e, w') \<Rightarrow>
          (Inl (internal_error ''Failed to process contextual chat request'' e), w')
      | (Inr response, w') \<Rightarrow> (Inr response, w'))"

section \<open>Sample collaborators and inputs\<close>

text \<open>
  Concrete stand-ins for the external services and some requests, on which the
  theorems below are instantiated.
\<close>

definition sample_result :: "string \<Rightarrow> real \<Rightarrow> RetrievalResult" where
  "sample_result txt sc =
     \<lparr>r_chunk_text = txt, r_chapter_slug = ''ros2-fundamentals'',
      r_section_id = Some ''ros2-fundamentals#nodes-and-topics'', r_chunk_index = 0,
      r_score = sc, r_start_char = 0, r_end_char = int (length txt)\<rparr>"

definition search_none :: "string \<Rightarrow> string option \<Rightarrow> py_exception + RetrievalResult list" where
  "search_none query chapter_filter = Inr []"

definition search_weak :: "string \<Rightarrow> string option \<Rightarrow> py_exception + RetrievalResult list" where
  "search_weak query chapter_filter = Inr [sample_result ''Nodes exchange messages.'' 0.2]"

definition llm_stub :: "llm_request \<Rightarrow> py_exception + string" where
  "llm_stub req = Inr ''An answer from the model.''"

definition world0 :: world where
  "world0 = \<lparr>llm_calls = [], uuid_next = 0\<rparr>"

definition negative_low_settings :: Settings where
  "negative_low_settings =
     \<lparr>confidence_high_threshold = 0.5, confidence_low_threshold = -0.1,
      groq_model = ''llama-3.1-8b-instant''\<rparr>"

definition zero_low_settings :: Settings where
  "zero_low_settings =
     \<lparr>confidence_high_threshold = 0.7, confidence_low_threshold = 0,
      groq_model = ''llama-3.1-8b-instant''\<rparr>"

definition negative_settings :: Settings where
  "negative_settings =
     \<lparr>confidence_high_threshold = -0.1, confidence_low_threshold = -0.5,
      groq_model = ''llama-3.1-8b-instant''\<rparr>"

definition explain_request :: ContextualChatRequest where
  "explain_request =
     \<lparr>cq_message = ''Explain X'', cq_selected_text = replicate 120 CHR ''q'',
      cq_chapter_slug = Some ''ros2-fundamentals'', cq_session_id = None\<rparr>"


definition long_text :: string where
  \<comment> \<open>513 one-letter words, the 463rd being the only \<open>x\<close>.\<close>
  "long_text = concat (replicate 462 ''w '') @ ''x '' @ concat (replicate 49 ''w '') @ ''w''"

section \<open>Confidence classification\<close>

text \<open>
  Claim C1. With \<open>high_threshold > low_threshold\<close>, the level is \<open>high\<close> exactly when the
  score is at least the high threshold, \<open>medium\<close> exactly when it lies between the two
  thresholds (low one included), and \<open>low\<close> exactly when it is below the low threshold;
  the level never decreases when the score grows; and with the default thresholds
  0.4 and 0.7 the scores 0.9, 0.7, 0.69, 0.4, 0.39 give high, high, medium, medium, low.
\<close>

theorem confidence_classification:
  assumes "confidence_low_threshold st < confidence_high_threshold st"
  shows "(get_confidence_level st s = ''high'' \<longleftrightarrow> confidence_high_threshold st \<le> s)
       \<and> (get_confidence_level st s = ''medium'' \<longleftrightarrow>
            confidence_low_threshold st \<le> s \<and> s < confidence_high_threshold st)
       \<and> (get_confidence_level st s = ''low'' \<longleftrightarrow> s < confidence_low_threshold st)
       \<and> (s \<le> s' \<longrightarrow> confidence_rank (get_confidence_level st s)
                        \<le> confidence_rank (get_confidence_level st s'))
       \<and> get_confidence_level default_settings 0.9 = ''high''
       \<and> get_confidence_level default_settings 0.7 = ''high''
       \<and> get_confidence_level default_settings 0.69 = ''medium''
       \<and> get_confidence_level default_settings 0.4 = ''medium''
       \<and> get_confidence_level default_settings 0.39 = ''low''"
  using assms by (auto simp: get_confidence_level_def default_settings_def)

theorem confidence_classification_witness:
  "confidence_low_threshold default_settings < confidence_high_threshold default_settings
   \<and> (0.5::real) \<le> 0.8
   \<and> get_confidence_level default_settings 0.5 = ''medium''
   \<and> get_confidence_level default_settings 0.8 = ''high''
   \<and> confidence_rank (get_confidence_level default_settings 0.5)
        \<le> confidence_rank (get_confidence_level default_settings 0.8)"
proof -
  have h: "confidence_low_threshold default_settings < confidence_high_threshold default_settings"
    by (simp add: default_settings_def)
  have le: "(0.5::real) \<le> 0.8" by simp
  from confidence_classification [OF h, of "0.5" "0.8"] le
  show ?thesis using h by (simp add: default_settings_def get_confidence_level_def)
qed

section \<open>The low-confidence fallback\<close>

text \<open>
  Claim C10. The fallback generator ignores its query: any two queries give the same
  string, so the result is one fixed constant.
\<close>

theorem low_confidence_response_constant:
  "generate_low_confidence_response q1 = generate_low_confidence_response q2"
  by (simp add: generate_low_confidence_response_def)

section \<open>Response assembly\<close>

lemma chat_response_low:
  "chat_response sid a ''low'' srcs d w =
     (Inr \<lparr>message_id = uuid_next w,
           session_id = (case sid of Some s \<Rightarrow> s | None \<Rightarrow> Suc (uuid_next w)),
           answer = a, confidence = LOW, sources = srcs, disclaimer = d\<rparr>,
      w\<lparr>uuid_next := (case sid of Some s \<Rightarrow> Suc (uuid_next w)
                                | None \<Rightarrow> Suc (Suc (uuid_next w)))\<rparr>)"
  by (cases sid) (simp_all add: chat_response_def uuid4_def ConfidenceLevel_of_def)

lemma chat_response_medium:
  "chat_response sid a ''medium'' srcs d w =
     (Inr \<lparr>message_id = uuid_next w,
           session_id = (case sid of Some s \<Rightarrow> s | None \<Rightarrow> Suc (uuid_next w)),
           answer = a, confidence = MEDIUM, sources = srcs, disclaimer = d\<rparr>,
      w\<lparr>uuid_next := (case sid of Some s \<Rightarrow> Suc (uuid_next w)
                                | None \<Rightarrow> Suc (Suc (uuid_next w)))\<rparr>)"
  by (cases sid) (simp_all add: chat_response_def uuid4_def ConfidenceLevel_of_def)

lemma chat_response_high:
  "chat_response sid a ''high'' srcs d w =
     (Inr \<lparr>message_id = uuid_next w,
           session_id = (case sid of Some s \<Rightarrow> s | None \<Rightarrow> Suc (uuid_next w)),
           answer = a, confidence = HIGH, sources = srcs, disclaimer = d\<rparr>,
      w\<lparr>uuid_next := (case sid of Some s \<Rightarrow> Suc (uuid_next w)
                                | None \<Rightarrow> Suc (Suc (uuid_next w)))\<rparr>)"
  by (cases sid) (simp_all add: chat_response_def uuid4_def ConfidenceLevel_of_def)

lemma low_classification:
  assumes "confidence_low_threshold settings < confidence_high_threshold settings"
      and "case results of [] \<Rightarrow> 0 < confidence_low_threshold settings
           | r # _ \<Rightarrow> r_score r < confidence_low_threshold settings"
  shows "get_confidence_level settings (top_score_of results) = ''low''"
  using assms by (cases results) (auto simp: get_confidence_level_def top_score_of_def)

text \<open>
  No results with thresholds \<open>0 < 0.7\<close>: the empty list is scored \<open>0\<close>, the
  classification is \<open>medium\<close>, the language model is called once and its answer is
  returned instead of the fallback text.
\<close>

theorem low_confidence_chat_counterexample:
  "confidence_low_threshold zero_low_settings < confidence_high_threshold zero_low_settings
   \<and> search_none ''What is ROS?'' None = Inr []
   \<and> fst (send_chat_message search_none llm_stub zero_low_settings
            \<lparr>q_message = ''What is ROS?'', q_session_id = None\<rparr> world0)
       = Inr \<lparr>message_id = 0, session_id = 1, answer = ''An answer from the model.'',
              confidence = MEDIUM, sources = [],
              disclaimer = Some ''Based on limited context from the textbook. The answer may be incomplete.''\<rparr>
   \<and> ''An answer from the model.'' \<noteq> generate_low_confidence_response ''What is ROS?''
   \<and> length (llm_calls (snd (send_chat_message search_none llm_stub zero_low_settings
            \<lparr>q_message = ''What is ROS?'', q_session_id = None\<rparr> world0))) = 1
   \<and> length (llm_calls world0) = 0"
  by (simp add: zero_low_settings_def search_none_def get_confidence_level_def
      top_score_of_def send_chat_message_def chat_body_def generate_response_def
      llm_stub_def chat_response_medium world0_def generate_low_confidence_response_def)

text \<open>
  Claim C2, amended. With \<open>high_threshold > low_threshold\<close>, when the first result's
  score is below \<open>low_threshold\<close>, or there are no results and \<open>low_threshold > 0\<close>,
  the chat handler returns a response whose answer is the fixed fallback text, whose
  sources are empty, whose disclaimer is the fixed "may not be covered" message and whose
  confidence is \<open>LOW\<close>, and the log of requests sent to the language model is
  unchanged: the model is not called.
\<close>

theorem low_confidence_chat:
  assumes "confidence_low_threshold settings < confidence_high_threshold settings"
      and "search (q_message request) None = Inr results"
      and "case results of [] \<Rightarrow> 0 < confidence_low_threshold settings
           | r # _ \<Rightarrow> r_score r < confidence_low_threshold settings"
  shows "\<exists>response w'.
           send_chat_message search llm settings request w = (Inr response, w')
         \<and> answer response = generate_low_confidence_response (q_message request)
         \<and> sources response = []
         \<and> disclaimer response = Some ''This topic may not be covered in the textbook.''
         \<and> confidence response = LOW
         \<and> llm_calls w' = llm_calls w"
  using assms(2) low_classification [OF assms(1) assms(3)]
  by (simp add: send_chat_message_def chat_body_def chat_response_low)

theorem low_confidence_chat_witness:
  "confidence_low_threshold default_settings < confidence_high_threshold default_settings
   \<and> search_weak ''What is ROS?'' None = Inr [sample_result ''Nodes exchange messages.'' 0.2]
   \<and> r_score (sample_result ''Nodes exchange messages.'' 0.2)
        < confidence_low_threshold default_settings
   \<and> (\<exists>response w'.
         send_chat_message search_weak llm_stub default_settings
           \<lparr>q_message = ''What is ROS?'', q_session_id = None\<rparr> world0 = (Inr response, w')
       \<and> answer response = generate_low_confidence_response ''What is ROS?''
       \<and> sources response = []
       \<and> disclaimer response = Some ''This topic may not be covered in the textbook.''
       \<and> confidence response = LOW
       \<and> llm_calls w' = llm_calls world0)"
proof -
  have t: "confidence_low_threshold default_settings < confidence_high_threshold default_settings"
    by (simp add: default_settings_def)
  have a: "search_weak (q_message \<lparr>q_message = ''What is ROS?'', q_session_id = None\<rparr>) None
             = Inr [sample_result ''Nodes exchange messages.'' 0.2]"
    by (simp add: search_weak_def)
  have s: "r_score (sample_result ''Nodes exchange messages.'' 0.2)
             < confidence_low_threshold default_settings"
    by (simp add: default_settings_def sample_result_def)
  then have b: "case [sample_result ''Nodes exchange messages.'' 0.2] of
                  [] \<Rightarrow> 0 < confidence_low_threshold default_settings
                | r # _ \<Rightarrow> r_score r < confidence_low_threshold default_settings"
    by simp
  from low_confidence_chat [where search = search_weak and settings = default_settings
      and request = "\<lparr>q_message = ''What is ROS?'', q_session_id = None\<rparr>"
      and llm = llm_stub and w = world0, OF t a b] t a s
  show ?thesis by simp
qed

text \<open>
  Zero hits on the contextual endpoint: with thresholds \<open>-0.5 < -0.1\<close> the response is
  \<open>HIGH\<close> with no disclaimer, and with thresholds \<open>0 < 0.7\<close> it carries the
  "limited textbook context" disclaimer of the medium branch.
\<close>

theorem contextual_low_counterexample:
  "confidence_low_threshold negative_settings < confidence_high_threshold negative_settings
   \<and> search_none (cq_message explain_request) (cq_chapter_slug explain_request) = Inr []
   \<and> fst (send_contextual_message search_none llm_stub negative_settings explain_request world0)
       = Inr \<lparr>message_id = 0, session_id = 1, answer = ''An answer from the model.'',
              confidence = HIGH, sources = [], disclaimer = None\<rparr>
   \<and> confidence_low_threshold zero_low_settings < confidence_high_threshold zero_low_settings
   \<and> fst (send_contextual_message search_none llm_stub zero_low_settings explain_request world0)
       = Inr \<lparr>message_id = 0, session_id = 1, answer = ''An answer from the model.'',
              confidence = MEDIUM, sources = [],
              disclaimer = Some ''Based on the selected text and limited textbook context.''\<rparr>"
  by (simp add: negative_settings_def zero_low_settings_def search_none_def
      get_confidence_level_def top_score_of_def send_contextual_message_def
      contextual_body_def generate_response_def llm_stub_def chat_response_medium
      chat_response_high world0_def explain_request_def)

text \<open>
  Claim C3, amended. With \<open>high_threshold > low_threshold\<close>, when the first result's
  score is below \<open>low_threshold\<close>, or there are zero hits and \<open>low_threshold > 0\<close>,
  and the language model answers and the sources validate, the contextual handler returns
  confidence \<open>MEDIUM\<close>, the "based primarily on the selected text" disclaimer, and
  the answer the language model gave for the prompt built from the selected text and the
  results; exactly that one request is added to the log.
\<close>

theorem contextual_low_upgraded:
  assumes "confidence_low_threshold settings < confidence_high_threshold settings"
      and "search (cq_message request) (cq_chapter_slug request) = Inr results"
      and "case results of [] \<Rightarrow> 0 < confidence_low_threshold settings
           | r # _ \<Rightarrow> r_score r < confidence_low_threshold settings"
      and "llm \<lparr>lr_model = groq_model settings, lr_system = SYSTEM_PROMPT,
                lr_user = user_message (cq_message request) (format_context results)
                            (Some (cq_selected_text request)),
                lr_temperature = 0.3, lr_max_tokens = 1000\<rparr> = Inr ans"
      and "build_sources results = Inr srcs"
  shows "\<exists>response w'.
           send_contextual_message search llm settings request w = (Inr response, w')
         \<and> confidence response = MEDIUM
         \<and> disclaimer response = Some ''Response based primarily on the selected text.''
         \<and> answer response = ans
         \<and> sources response = srcs
         \<and> llm_calls w' = llm_calls w @
              [\<lparr>lr_model = groq_model settings, lr_system = SYSTEM_PROMPT,
                lr_user = user_message (cq_message request) (format_context results)
                            (Some (cq_selected_text request)),
                lr_temperature = 0.3, lr_max_tokens = 1000\<rparr>]"
proof -
  have srcs: "(if results \<noteq> [] then build_sources results else Inr []) = Inr srcs"
    using assms(5) by (cases results) simp_all
  have low: "get_confidence_level settings (top_score_of results) = ''low''"
    using assms(1,3) by (rule low_classification)
  show ?thesis
    using assms(2,4) low srcs
    by (simp add: send_contextual_message_def contextual_body_def generate_response_def
        chat_response_medium)
qed

theorem contextual_low_upgraded_witness:
  "confidence_low_threshold default_settings < confidence_high_threshold default_settings
   \<and> search_none (cq_message explain_request) (cq_chapter_slug explain_request) = Inr []
   \<and> 0 < confidence_low_threshold default_settings
   \<and> build_sources [] = Inr []
   \<and> (\<exists>response w'.
         send_contextual_message search_none llm_stub default_settings explain_request world0
           = (Inr response, w')
       \<and> confidence response = MEDIUM
       \<and> disclaimer response = Some ''Response based primarily on the selected text.''
       \<and> answer response = ''An answer from the model.''
       \<and> sources response = []
       \<and> length (llm_calls w') = 1)"
proof -
  have t: "confidence_low_threshold default_settings < confidence_high_threshold default_settings"
    by (simp add: default_settings_def)
  have a: "search_none (cq_message explain_request) (cq_chapter_slug explain_request) = Inr []"
    by (simp add: search_none_def)
  have z: "0 < confidence_low_threshold default_settings"
    by (simp add: default_settings_def)
  then have b: "case [] :: RetrievalResult list of
                  [] \<Rightarrow> 0 < confidence_low_threshold default_settings
                | r # _ \<Rightarrow> r_score r < confidence_low_threshold default_settings"
    by simp
  have c: "llm_stub \<lparr>lr_model = groq_model default_settings, lr_system = SYSTEM_PROMPT,
                lr_user = user_message (cq_message explain_request) (format_context [])
                            (Some (cq_selected_text explain_request)),
                lr_temperature = 0.3, lr_max_tokens = 1000\<rparr> = Inr ''An answer from the model.''"
    by (simp add: llm_stub_def)
  have d: "build_sources [] = Inr []" by simp
  from contextual_low_upgraded [where search = search_none and settings = default_settings
      and request = explain_request and llm = llm_stub and w = world0, OF t a b c d]
  obtain response w' where
    r: "send_contextual_message search_none llm_stub default_settings explain_request world0
           = (Inr response, w')"
       "confidence response = MEDIUM"
       "disclaimer response = Some ''Response based primarily on the selected text.''"
       "answer response = ''An answer from the model.''"
       "sources response = []"
    and l: "llm_calls w' = llm_calls world0 @
              [\<lparr>lr_model = groq_model default_settings, lr_system = SYSTEM_PROMPT,
                lr_user = user_message (cq_message explain_request) (format_context [])
                            (Some (cq_selected_text explain_request)),
                lr_temperature = 0.3, lr_max_tokens = 1000\<rparr>]"
    by blast
  from l have "length (llm_calls w') = 1" by (simp add: world0_def)
  with r t a z d show ?thesis by blast
qed

text \<open>
  An empty result list is scored \<open>0\<close>, so with thresholds \<open>-0.1 < 0.5\<close> a request
  with no hits is classified \<open>medium\<close>, not \<open>low\<close>.
\<close>

theorem empty_retrieval_counterexample:
  "confidence_low_threshold negative_low_settings
     < confidence_high_threshold negative_low_settings
   \<and> search_none ''What is ROS?'' None = Inr []
   \<and> get_confidence_level negative_low_settings (top_score_of []) = ''medium''
   \<and> fst (send_chat_message search_none llm_stub negative_low_settings
            \<lparr>q_message = ''What is ROS?'', q_session_id = None\<rparr> world0)
       = Inr \<lparr>message_id = 0, session_id = 1, answer = ''An answer from the model.'',
              confidence = MEDIUM, sources = [],
              disclaimer = Some ''Based on limited context from the textbook. The answer may be incomplete.''\<rparr>"
  by (simp add: negative_low_settings_def search_none_def get_confidence_level_def
      top_score_of_def send_chat_message_def chat_body_def generate_response_def
      llm_stub_def chat_response_medium world0_def)

text \<open>
  Claim C6, amended. With \<open>high_threshold > low_threshold\<close>, an empty result list is
  classified \<open>low\<close> exactly when \<open>low_threshold > 0\<close>; in that case the chat handler
  returns a response with confidence \<open>LOW\<close>.
\<close>

theorem empty_retrieval_low:
  assumes "confidence_low_threshold settings < confidence_high_threshold settings"
      and "search (q_message request) None = Inr []"
  shows "(get_confidence_level settings (top_score_of []) = ''low''
            \<longleftrightarrow> 0 < confidence_low_threshold settings)
       \<and> (0 < confidence_low_threshold settings \<longrightarrow>
            (\<exists>response w'.
               send_chat_message search llm settings request w = (Inr response, w')
             \<and> confidence response = LOW))"
proof -
  have cls: "get_confidence_level settings (top_score_of []) = ''low''
               \<longleftrightarrow> 0 < confidence_low_threshold settings"
    using assms(1) by (auto simp: get_confidence_level_def top_score_of_def)
  moreover have "\<exists>response w'.
               send_chat_message search llm settings request w = (Inr response, w')
             \<and> confidence response = LOW" if "0 < confidence_low_threshold settings"
    using that cls assms(2)
    by (simp add: send_chat_message_def chat_body_def chat_response_low)
  ultimately show ?thesis by blast
qed

theorem empty_retrieval_low_witness:
  "confidence_low_threshold default_settings < confidence_high_threshold default_settings
   \<and> search_none ''What is ROS?'' None = Inr []
   \<and> 0 < confidence_low_threshold default_settings
   \<and> get_confidence_level default_settings (top_score_of []) = ''low''
   \<and> (\<exists>response w'.
         send_chat_message search_none llm_stub default_settings
           \<lparr>q_message = ''What is ROS?'', q_session_id = None\<rparr> world0 = (Inr response, w')
       \<and> confidence response = LOW)"
proof -
  have a: "confidence_low_threshold default_settings
             < confidence_high_threshold default_settings"
    by (simp add: default_settings_def)
  have b: "search_none (q_message \<lparr>q_message = ''What is ROS?'', q_session_id = None\<rparr>) None
             = Inr []"
    by (simp add: search_none_def)
  have c: "0 < confidence_low_threshold default_settings"
    by (simp add: default_settings_def)
  from empty_retrieval_low [where search = search_none and settings = default_settings
      and request = "\<lparr>q_message = ''What is ROS?'', q_session_id = None\<rparr>"
      and llm = llm_stub and w = world0, OF a b] a b c
  show ?thesis by simp
qed

section \<open>Sources\<close>

lemma split_on_pieces: "Suc 0 \<le> length (split_on d cur s)"
  by (induction s arbitrary: cur) auto

lemma split_on_length: "CHR ''#'' \<in> set s \<Longrightarrow> 2 \<le> length (split_on CHR ''#'' cur s)"
  by (induction s arbitrary: cur) (auto simp: split_on_pieces)

lemma section_title_of_returns: "\<exists>t. section_title_of sid = Inr t"
proof (cases sid)
  case None
  then show ?thesis by (simp add: section_title_of_def)
next
  case (Some x)
  show ?thesis
  proof (cases "x \<noteq> [] \<and> CHR ''#'' \<in> set x")
    case True
    then have "2 \<le> length (split_on CHR ''#'' [] x)" by (simp add: split_on_length)
    then obtain a b rest where "split_on CHR ''#'' [] x = a # b # rest"
      by (cases "split_on CHR ''#'' [] x"; simp; case_tac list; simp)
    with Some True show ?thesis by (simp add: section_title_of_def)
  next
    case False
    with Some show ?thesis by (auto simp add: section_title_of_def)
  qed
qed

lemma py_round3_bounds:
  assumes "-1 \<le> x" "x \<le> 1"
  shows "-1 \<le> py_round3 x \<and> py_round3 x \<le> 1"
proof -
  define y where "y = x * 1000"
  define f where "f = \<lfloor>y\<rfloor>"
  have yb: "-1000 \<le> y" "y \<le> 1000" using assms by (simp_all add: y_def)
  have fb: "-1000 \<le> f" "f \<le> 1000" using yb by (simp_all add: f_def le_floor_iff floor_le_iff)
  have top: "f = 1000 \<Longrightarrow> y - of_int f = 0"
    using yb unfolding f_def by linarith
  have r: "py_round3 x = of_int (if y - of_int f < 1 / 2 then f else if 1 / 2 < y - of_int f then f + 1
                 else if even f then f else f + 1) / 1000"
    by (simp add: py_round3_def Let_def y_def f_def)
  show ?thesis
  proof (cases "f = 1000")
    case True
    with top r show ?thesis by simp
  next
    case False
    with fb have "f + 1 \<le> 1000" by simp
    then have "real_of_int (f + 1) \<le> 1000" by linarith
    moreover have "-1000 \<le> real_of_int f" using fb by linarith
    moreover have "real_of_int f \<le> real_of_int (f + 1)" by simp
    ultimately show ?thesis unfolding r by (auto simp: field_simps)
  qed
qed

lemma make_source_excerpt:
  "make_source r = Inr src \<Longrightarrow> s_excerpt src = take 200 (r_chunk_text r)"
  by (auto simp: make_source_def Source_new_def split: sum.splits if_splits)

lemma make_source_returns:
  assumes "-1 \<le> r_score r" "r_score r \<le> 1"
  shows "\<exists>src. make_source r = Inr src"
proof -
  obtain t where t: "section_title_of (r_section_id r) = Inr t"
    using section_title_of_returns by blast
  from py_round3_bounds [OF assms] t show ?thesis
    by (simp add: make_source_def Source_new_def)
qed

lemma build_sources_returns:
  "\<forall>r\<in>set results. -1 \<le> r_score r \<and> r_score r \<le> 1 \<Longrightarrow> \<exists>srcs. build_sources results = Inr srcs"
proof (induction results)
  case Nil
  then show ?case by simp
next
  case (Cons r rs)
  then obtain src where "make_source r = Inr src" using make_source_returns by fastforce
  moreover from Cons obtain srcs where "build_sources rs = Inr srcs" by auto
  ultimately show ?case by simp
qed

lemma build_sources_excerpts:
  "build_sources results = Inr srcs \<Longrightarrow>
   length srcs = length results \<and>
   (\<forall>i<length results. s_excerpt (srcs ! i) = take 200 (r_chunk_text (results ! i)))"
proof (induction results arbitrary: srcs)
  case Nil
  then show ?case by simp
next
  case (Cons r rs)
  from Cons.prems obtain src rest where
    s: "make_source r = Inr src" and b: "build_sources rs = Inr rest" and e: "srcs = src # rest"
    by (auto split: sum.splits)
  from Cons.IH [OF b] make_source_excerpt [OF s] e show ?case
    by (auto simp: nth_Cons split: nat.splits)
qed

text \<open>
  Claim C8. Every source built from a retrieval result carries as excerpt the first 200
  characters of the chunk text: at most 200 characters, exactly 200 for a chunk text of
  500 characters, and the chunk text itself for one of 150 characters. The sources are
  built whenever every score lies in \<open>[-1, 1]\<close>.
\<close>

theorem excerpt_truncation:
  "(build_sources results = Inr srcs \<longrightarrow>
      length srcs = length results \<and>
      (\<forall>i<length results.
         s_excerpt (srcs ! i) = take 200 (r_chunk_text (results ! i)) \<and>
         length (s_excerpt (srcs ! i)) \<le> 200 \<and>
         (length (r_chunk_text (results ! i)) = 500 \<longrightarrow> length (s_excerpt (srcs ! i)) = 200) \<and>
         (length (r_chunk_text (results ! i)) = 150 \<longrightarrow>
            s_excerpt (srcs ! i) = r_chunk_text (results ! i))))
   \<and> ((\<forall>r\<in>set results. -1 \<le> r_score r \<and> r_score r \<le> 1) \<longrightarrow>
        (\<exists>out. build_sources results = Inr out))"
  using build_sources_excerpts [of results srcs] build_sources_returns [of results]
  by auto

theorem excerpt_truncation_witness:
  "build_sources [sample_result (replicate 500 CHR ''x'') 0.5,
                  sample_result (replicate 150 CHR ''y'') 0.25] =
     Inr [\<lparr>s_chapter_slug = ''ros2-fundamentals'', s_chapter_title = ''ROS 2 Fundamentals'',
           s_section_id = Some ''ros2-fundamentals#nodes-and-topics'',
           s_section_title = Some ''Nodes And Topics'',
           s_excerpt = replicate 200 CHR ''x'', s_score = 0.5\<rparr>,
          \<lparr>s_chapter_slug = ''ros2-fundamentals'', s_chapter_title = ''ROS 2 Fundamentals'',
           s_section_id = Some ''ros2-fundamentals#nodes-and-topics'',
           s_section_title = Some ''Nodes And Topics'',
           s_excerpt = replicate 150 CHR ''y'', s_score = 0.25\<rparr>]
   \<and> length (replicate 200 CHR ''x'') = 200"
proof -
  let ?rs = "[sample_result (replicate 500 CHR ''x'') 0.5,
              sample_result (replicate 150 CHR ''y'') 0.25]"
  have ev: "build_sources ?rs =
     Inr [\<lparr>s_chapter_slug = ''ros2-fundamentals'', s_chapter_title = ''ROS 2 Fundamentals'',
           s_section_id = Some ''ros2-fundamentals#nodes-and-topics'',
           s_section_title = Some ''Nodes And Topics'',
           s_excerpt = replicate 200 CHR ''x'', s_score = 0.5\<rparr>,
          \<lparr>s_chapter_slug = ''ros2-fundamentals'', s_chapter_title = ''ROS 2 Fundamentals'',
           s_section_id = Some ''ros2-fundamentals#nodes-and-topics'',
           s_section_title = Some ''Nodes And Topics'',
           s_excerpt = replicate 150 CHR ''y'', s_score = 0.25\<rparr>]" (is "_ = Inr ?out")
    by (simp add: sample_result_def make_source_def section_title_of_def Source_new_def
        py_round3_def get_chapter_title_def CHAPTER_TITLES_def py_title_def
        py_replace_char_def is_upper_char_def is_lower_char_def is_cased_only_def Let_def
        char_of_def
        bit_iff_odd)
  from excerpt_truncation [of ?rs ?out] ev show ?thesis by simp
qed

section \<open>Chunking\<close>

lemma chunk_loop_done:
  "\<not> s < int (length ws) \<Longrightarrow> chunk_loop T ws M ov s p acc = Some acc"
  by (subst chunk_loop.simps) simp

lemma chunk_loop_last:
  "s < int (length ws) \<Longrightarrow> int (length ws) \<le> s + M \<Longrightarrow>
   chunk_loop T ws M ov s p acc = Some (acc @ [window_chunk T ws s (int (length ws)) p])"
  by (subst chunk_loop.simps) (simp add: window_chunk_def Let_def min_def)

lemma chunk_loop_step:
  "s < int (length ws) \<Longrightarrow> s + M < int (length ws) \<Longrightarrow>
   chunk_loop T ws M ov s p acc =
     chunk_loop T ws M ov (s + M - ov) (c_end_char (window_chunk T ws s (s + M) p))
       (acc @ [window_chunk T ws s (s + M) p])"
  by (subst chunk_loop.simps) (simp add: window_chunk_def Let_def min_def)

lemma chunk_loop_windows:
  assumes "ov < M"
  shows "\<exists>cs. chunk_loop T ws M ov s p acc = Some (acc @ cs) \<and>
           (\<forall>k<length cs. s + int k * (M - ov) < int (length ws) \<and>
              (\<exists>q. cs ! k = window_chunk T ws (s + int k * (M - ov))
                       (min (s + int k * (M - ov) + M) (int (length ws))) q))"
proof (induction "nat (int (length ws) - s)" arbitrary: s p acc rule: less_induct)
  case less
  let ?n = "int (length ws)"
  consider (fin) "\<not> s < ?n" | (last) "s < ?n" "?n \<le> s + M" | (step) "s < ?n" "s + M < ?n"
    by linarith
  then show ?case
  proof cases
    case fin
    then show ?thesis by (simp add: chunk_loop_done)
  next
    case last
    then have "chunk_loop T ws M ov s p acc = Some (acc @ [window_chunk T ws s ?n p])"
      by (rule chunk_loop_last)
    moreover have "min (s + M) ?n = ?n" using last by simp
    ultimately show ?thesis using last by auto
  next
    case step
    let ?c = "window_chunk T ws s (s + M) p"
    let ?s' = "s + M - ov"
    have m: "nat (?n - ?s') < nat (?n - s)" using step assms by linarith
    from less [OF m, of "c_end_char ?c" "acc @ [?c]"]
    obtain cs where cs: "chunk_loop T ws M ov ?s' (c_end_char ?c) (acc @ [?c]) = Some ((acc @ [?c]) @ cs)"
      and w: "\<forall>k<length cs. ?s' + int k * (M - ov) < ?n \<and>
              (\<exists>q. cs ! k = window_chunk T ws (?s' + int k * (M - ov))
                       (min (?s' + int k * (M - ov) + M) ?n) q)"
      by blast
    have eq: "chunk_loop T ws M ov s p acc = Some (acc @ (?c # cs))"
      using chunk_loop_step [OF step, of T ov p acc] cs by simp
    have "s + int k * (M - ov) < ?n \<and>
              (\<exists>q. (?c # cs) ! k = window_chunk T ws (s + int k * (M - ov))
                       (min (s + int k * (M - ov) + M) ?n) q)" if "k < length (?c # cs)" for k
    proof (cases k)
      case 0
      then show ?thesis using step by (auto simp: min_def)
    next
      case (Suc j)
      then have j: "j < length cs" using that by simp
      have idx: "?s' + int j * (M - ov) = s + int k * (M - ov)"
        using Suc by (simp add: algebra_simps)
      from w j have "?s' + int j * (M - ov) < ?n \<and>
              (\<exists>q. cs ! j = window_chunk T ws (?s' + int j * (M - ov))
                       (min (?s' + int j * (M - ov) + M) ?n) q)" by blast
      then show ?thesis unfolding idx using Suc by simp
    qed
    with eq show ?thesis by blast
  qed
qed

lemma split_acc_words:
  "\<forall>c\<in>set cur. \<not> py_isspace c \<Longrightarrow> w \<in> set (split_acc cur cs) \<Longrightarrow>
   w \<noteq> [] \<and> (\<forall>c\<in>set w. \<not> py_isspace c)"
proof (induction cs arbitrary: cur)
  case Nil
  then show ?case by (auto split: if_splits)
next
  case (Cons c cs)
  show ?case
  proof (cases "py_isspace c")
    case True
    with Cons.prems have "w = cur \<and> cur \<noteq> [] \<or> w \<in> set (split_acc [] cs)"
      by (auto split: if_splits)
    then show ?thesis using Cons.IH [of "[]"] Cons.prems(1) by auto
  next
    case False
    with Cons.prems have "w \<in> set (split_acc (cur @ [c]) cs)" by simp
    moreover have "\<forall>x\<in>set (cur @ [c]). \<not> py_isspace x" using False Cons.prems(1) by auto
    ultimately show ?thesis using Cons.IH by blast
  qed
qed

lemma py_split_words:
  "w \<in> set (py_split text) \<Longrightarrow> w \<noteq> [] \<and> (\<forall>c\<in>set w. \<not> py_isspace c)"
  unfolding py_split_def using split_acc_words [of "[]" w "text"] by simp

lemma window_chunk_text [simp]:
  "c_text (window_chunk T ws s e q) = py_join '' '' (py_slice ws s e)"
  by (simp add: window_chunk_def Let_def)

lemma window_chunk_end:
  "c_end_char (window_chunk T ws s e q) =
     c_start_char (window_chunk T ws s e q) + int (length (c_text (window_chunk T ws s e q)))"
  by (simp add: window_chunk_def Let_def)

text \<open>
  Claim C7. With \<open>overlap_tokens < max_tokens\<close> and \<open>max_tokens > 0\<close> chunking
  returns; the \<open>k\<close>-th chunk is the window of words starting at index
  \<open>k * (max_tokens - overlap_tokens)\<close>, which lies inside the word sequence; and the
  empty text yields no chunk.
\<close>

theorem chunking_terminates:
  assumes "overlap_tokens < max_tokens" and "0 < max_tokens"
  shows "(\<exists>chunks. chunk_text text max_tokens overlap_tokens = Some chunks \<and>
            (\<forall>k<length chunks.
               int k * (max_tokens - overlap_tokens) < int (length (py_split text)) \<and>
               c_text (chunks ! k) =
                 py_join '' '' (py_slice (py_split text)
                   (int k * (max_tokens - overlap_tokens))
                   (min (int k * (max_tokens - overlap_tokens) + max_tokens)
                        (int (length (py_split text)))))))
       \<and> chunk_text [] max_tokens overlap_tokens = Some []"
proof -
  from chunk_loop_windows [OF assms(1), of "text" "py_split text" 0 0 "[]"]
  obtain cs where cs: "chunk_text text max_tokens overlap_tokens = Some cs"
    and w: "\<forall>k<length cs. int k * (max_tokens - overlap_tokens) < int (length (py_split text)) \<and>
              (\<exists>q. cs ! k = window_chunk text (py_split text) (int k * (max_tokens - overlap_tokens))
                       (min (int k * (max_tokens - overlap_tokens) + max_tokens)
                          (int (length (py_split text)))) q)"
    by (auto simp: chunk_text_def)
  have "\<forall>k<length cs.
               int k * (max_tokens - overlap_tokens) < int (length (py_split text)) \<and>
               c_text (cs ! k) =
                 py_join '' '' (py_slice (py_split text)
                   (int k * (max_tokens - overlap_tokens))
                   (min (int k * (max_tokens - overlap_tokens) + max_tokens)
                        (int (length (py_split text)))))"
  proof (intro allI impI)
    fix k assume "k < length cs"
    with w obtain q where "int k * (max_tokens - overlap_tokens) < int (length (py_split text))"
      and "cs ! k = window_chunk text (py_split text) (int k * (max_tokens - overlap_tokens))
                       (min (int k * (max_tokens - overlap_tokens) + max_tokens)
                          (int (length (py_split text)))) q" by blast
    then show "int k * (max_tokens - overlap_tokens) < int (length (py_split text)) \<and>
               c_text (cs ! k) =
                 py_join '' '' (py_slice (py_split text)
                   (int k * (max_tokens - overlap_tokens))
                   (min (int k * (max_tokens - overlap_tokens) + max_tokens)
                        (int (length (py_split text)))))" by simp
  qed
  moreover have "chunk_text [] max_tokens overlap_tokens = Some []"
    by (simp add: chunk_text_def py_split_def chunk_loop_done)
  ultimately show ?thesis using cs by blast
qed

theorem chunking_terminates_witness:
  "(1::int) < 3 \<and> (0::int) < 3
   \<and> (\<exists>chunks. chunk_text ''a b c d'' 3 1 = Some chunks
        \<and> length chunks = 2
        \<and> c_text (chunks ! 1) = py_join '' '' (py_slice (py_split ''a b c d'') 2 4))"
proof -
  have a: "(1::int) < 3" and b: "(0::int) < 3" by simp_all
  have ev: "chunk_text ''a b c d'' 3 1
       = Some [\<lparr>c_text = ''a b c'', c_start_char = 0, c_end_char = 5\<rparr>,
               \<lparr>c_text = ''c d'', c_start_char = -1, c_end_char = 2\<rparr>]"
    by code_simp
  have n: "int (length (py_split ''a b c d'')) = 4" by code_simp
  from chunking_terminates [OF a b, of "''a b c d''"]
  obtain chunks where c: "chunk_text ''a b c d'' 3 1 = Some chunks"
    and w: "\<forall>k<length chunks.
               int k * (3 - 1) < int (length (py_split ''a b c d'')) \<and>
               c_text (chunks ! k) =
                 py_join '' '' (py_slice (py_split ''a b c d'')
                   (int k * (3 - 1))
                   (min (int k * (3 - 1) + 3) (int (length (py_split ''a b c d'')))))"
    by blast
  from c ev have "chunks = [\<lparr>c_text = ''a b c'', c_start_char = 0, c_end_char = 5\<rparr>,
               \<lparr>c_text = ''c d'', c_start_char = -1, c_end_char = 2\<rparr>]"
    by simp
  then have len: "length chunks = 2" by simp
  with w have "c_text (chunks ! 1) =
                 py_join '' '' (py_slice (py_split ''a b c d'')
                   (int 1 * (3 - 1))
                   (min (int 1 * (3 - 1) + 3) (int (length (py_split ''a b c d'')))))"
    by (metis one_less_numeral_iff semiring_norm(76))
  then have "c_text (chunks ! 1) = py_join '' '' (py_slice (py_split ''a b c d'') 2 4)"
    unfolding n by simp
  with a b c len show ?thesis by blast
qed


lemma py_isspace_space: "py_isspace CHR '' ''"
  by (simp add: py_isspace_def)

lemma py_join_Cons: "ws \<noteq> [] \<Longrightarrow> py_join sep (w # ws) = w @ sep @ py_join sep ws"
  by (cases ws) simp_all

lemma py_join_append:
  "xs \<noteq> [] \<Longrightarrow> ys \<noteq> [] \<Longrightarrow> py_join sep (xs @ ys) = py_join sep xs @ sep @ py_join sep ys"
proof (induction xs)
  case Nil
  then show ?case by simp
next
  case (Cons x xs)
  show ?case
  proof (cases "xs = []")
    case True
    with Cons.prems show ?thesis by (simp add: py_join_Cons)
  next
    case False
    with Cons show ?thesis by (simp add: py_join_Cons)
  qed
qed

lemma prefix_hd_join: "ws \<noteq> [] \<Longrightarrow> prefix (hd ws) (py_join sep ws)"
  by (cases ws; cases "tl ws") (auto simp: py_join_Cons)

lemma first_match_prefix: "prefix sub xs \<Longrightarrow> first_match sub xs = Some 0"
  by (cases xs) auto

lemma py_slice_window:
  assumes "0 \<le> s" "s \<le> e" "e \<le> int (length ws)"
  shows "py_slice ws s e = take (nat (e - s)) (drop (nat s) ws)"
  using assms by (simp add: py_slice_def Let_def min_def)

lemma space_out_length [simp]: "length (space_out s) = length s"
  by (simp add: space_out_def)

lemma space_out_drop: "drop n (space_out s) = space_out (drop n s)"
  by (simp add: space_out_def drop_map)

lemma space_out_spaces: "c \<in> set (space_out s) \<Longrightarrow> py_isspace c \<Longrightarrow> c = CHR '' ''"
  by (auto simp: space_out_def split: if_splits)

lemma prefix_space_out:
  "\<forall>c\<in>set w. \<not> py_isspace c \<Longrightarrow> prefix w (space_out xs) = prefix w xs"
proof (induction w arbitrary: xs)
  case Nil
  then show ?case by simp
next
  case (Cons a w)
  show ?case
  proof (cases xs)
    case Nil
    then show ?thesis by (simp add: space_out_def)
  next
    case (Cons x xs')
    have "a = (if py_isspace x then CHR '' '' else x) \<longleftrightarrow> a = x"
      using Cons.prems py_isspace_space by auto
    moreover have "prefix w (space_out xs') = prefix w xs'" using Cons.IH Cons.prems by simp
    ultimately show ?thesis using Cons by (auto simp: space_out_def)
  qed
qed

lemma first_match_space_out:
  "\<forall>c\<in>set w. \<not> py_isspace c \<Longrightarrow> first_match w (space_out xs) = first_match w xs"
proof (induction xs)
  case Nil
  then show ?case by (simp add: space_out_def)
next
  case (Cons x xs)
  have "prefix w (space_out (x # xs)) = prefix w (x # xs)"
    using Cons.prems by (rule prefix_space_out)
  moreover have "space_out (x # xs) = (if py_isspace x then CHR '' '' else x) # space_out xs"
    by (simp add: space_out_def)
  ultimately show ?case using Cons by simp
qed

lemma py_find_space_out:
  "\<forall>c\<in>set w. \<not> py_isspace c \<Longrightarrow> py_find (space_out T) w p = py_find T w p"
  by (simp add: py_find_def Let_def space_out_drop first_match_space_out)

lemma first_match_run:
  assumes "w \<noteq> []" "CHR '' '' \<notin> set w" "prefix w rest"
  shows "first_match w (replicate m CHR '' '' @ rest) = Some m"
proof (induction m)
  case 0
  then show ?case using assms(3) by (simp add: first_match_prefix)
next
  case (Suc m)
  have "\<not> prefix w (CHR '' '' # replicate m CHR '' '' @ rest)"
    using assms(1,2) by (cases w) auto
  with Suc show ?case by simp
qed

lemma py_find_run:
  assumes "0 \<le> p" "drop (nat p) U = replicate m CHR '' '' @ rest"
      and "w \<noteq> []" "CHR '' '' \<notin> set w" "prefix w rest"
  shows "py_find U w p = p + int m"
proof -
  have "rest \<noteq> []" using assms(3,5) by auto
  then have "nat p < length U" using assms(2) by (metis append_is_Nil_conv drop_all not_le)
  then have "\<not> int (length U) < p" using assms(1) by linarith
  moreover have "first_match w (drop (nat p) U) = Some m"
    unfolding assms(2) using assms(3,4,5) by (rule first_match_run)
  ultimately show ?thesis using assms(1) by (simp add: py_find_def Let_def)
qed

lemma window_chunk_found:
  assumes words: "\<forall>w\<in>set ws. w \<noteq> [] \<and> (\<forall>c\<in>set w. \<not> py_isspace c)"
      and s: "0 \<le> s" "s < e" "e \<le> int (length ws)"
      and p: "0 \<le> p"
             "drop (nat p) (space_out T) = replicate m CHR '' '' @ py_join '' '' (drop (nat s) ws)"
  shows "\<exists>q. 0 \<le> q \<and> drop (nat q) (space_out T) = py_join '' '' (drop (nat s) ws) \<and>
             c_start_char (window_chunk T ws s e p) = q \<and>
             c_text (window_chunk T ws s e p) =
               py_join '' '' (take (nat (e - s)) (drop (nat s) ws))"
proof -
  let ?rest = "drop (nat s) ws"
  let ?win = "take (nat (e - s)) ?rest"
  let ?U = "space_out T"
  have rest: "?rest \<noteq> []" using s by simp
  have win: "py_slice ws s e = ?win" using s by (simp add: py_slice_window)
  have win_ne: "?win \<noteq> []" using rest s by simp
  have hd_win: "hd ?win = hd ?rest" using s by (simp add: hd_take)
  have "hd ?rest \<in> set ws" using rest by (metis hd_in_set in_set_dropD)
  with words have w: "hd ?rest \<noteq> []" "\<forall>c\<in>set (hd ?rest). \<not> py_isspace c" by auto
  then have nsp: "CHR '' '' \<notin> set (hd ?rest)" using py_isspace_space by blast
  have pre: "prefix (hd ?rest) (py_join '' '' ?rest)" using rest by (rule prefix_hd_join)
  have "c_start_char (window_chunk T ws s e p) = py_find T (hd ?rest) p"
    using win win_ne hd_win by (cases ?win) (simp_all add: window_chunk_def Let_def)
  also have "\<dots> = py_find ?U (hd ?rest) p" using w(2) by (simp add: py_find_space_out)
  also have "\<dots> = p + int m" using p(1) p(2) w(1) nsp pre by (rule py_find_run)
  finally have start: "c_start_char (window_chunk T ws s e p) = p + int m" .
  have "drop (nat (p + int m)) ?U = drop m (drop (nat p) ?U)"
    using p(1) by (simp add: nat_add_distrib add.commute)
  with p(2) have "drop (nat (p + int m)) ?U = py_join '' '' ?rest" by simp
  with start p(1) win show ?thesis by simp
qed

lemma chunk_loop_spaced:
  assumes words: "\<forall>w\<in>set ws. w \<noteq> [] \<and> (\<forall>c\<in>set w. \<not> py_isspace c)"
      and M: "0 < M"
  shows "ov = 0 \<or> int (length ws) \<le> s + M \<Longrightarrow> 0 \<le> s \<Longrightarrow> s < int (length ws) \<Longrightarrow> 0 \<le> p \<Longrightarrow>
         drop (nat p) (space_out T) = replicate m CHR '' '' @ py_join '' '' (drop (nat s) ws) \<Longrightarrow>
         \<exists>cs. chunk_loop T ws M ov s p acc = Some (acc @ cs) \<and> cs \<noteq> [] \<and>
              c_end_char (last cs) = int (length T)"
proof (induction "nat (int (length ws) - s)" arbitrary: s p m acc rule: less_induct)
  case less
  let ?n = "int (length ws)"
  let ?rest = "drop (nat s) ws"
  let ?U = "space_out T"
  show ?case
  proof (cases "?n \<le> s + M")
    case True
    let ?c = "window_chunk T ws s ?n p"
    from window_chunk_found [OF words less.prems(2) less.prems(3) _ less.prems(4) less.prems(5)]
    obtain q where q: "0 \<le> q" "drop (nat q) ?U = py_join '' '' ?rest"
      "c_start_char ?c = q" "c_text ?c = py_join '' '' (take (nat (?n - s)) ?rest)"
      by blast
    have "take (nat (?n - s)) ?rest = ?rest" using less.prems(2) by simp
    with q have "int (length (c_text ?c)) = int (length (drop (nat q) ?U))" by simp
    moreover have "py_join '' '' ?rest \<noteq> []"
    proof -
      have "?rest \<noteq> []" using less.prems by simp
      then have "prefix (hd ?rest) (py_join '' '' ?rest)" by (rule prefix_hd_join)
      moreover have "hd ?rest \<in> set ws" using \<open>?rest \<noteq> []\<close> by (metis hd_in_set in_set_dropD)
      ultimately show ?thesis using words by auto
    qed
    with q(2) have "nat q \<le> length ?U" by (metis drop_all linear)
    ultimately have "c_end_char ?c = int (length T)"
      using q(1,3) window_chunk_end [of T ws s ?n p] by simp
    moreover have "chunk_loop T ws M ov s p acc = Some (acc @ [?c])"
      using less.prems(3) True by (rule chunk_loop_last)
    ultimately show ?thesis by auto
  next
    case False
    then have lt: "s + M < ?n" by simp
    with less.prems(1) have ov: "ov = 0" by simp
    let ?c = "window_chunk T ws s (s + M) p"
    have sM: "s < s + M" "s + M \<le> ?n" using M lt by simp_all
    from window_chunk_found [OF words less.prems(2) sM less.prems(4) less.prems(5)]
    obtain q where q: "0 \<le> q" "drop (nat q) ?U = py_join '' '' ?rest"
      "c_start_char ?c = q" "c_text ?c = py_join '' '' (take (nat (s + M - s)) ?rest)"
      by blast
    let ?k = "nat M"
    have k: "nat (s + M - s) = ?k" by simp
    have t_ne: "take ?k ?rest \<noteq> []" using M less.prems by simp
    have d_ne: "drop ?k ?rest \<noteq> []" using lt less.prems M by simp
    have dd: "drop ?k ?rest = drop (nat (s + M)) ws"
      using less.prems(2) M by (simp add: nat_add_distrib add.commute)
    have "py_join '' '' ?rest =
            py_join '' '' (take ?k ?rest) @ '' '' @ py_join '' '' (drop ?k ?rest)"
      using py_join_append [OF t_ne d_ne, of "'' ''"] by (simp only: append_take_drop_id)
    with q(2) have dq: "drop (nat q) ?U =
            c_text ?c @ CHR '' '' # py_join '' '' (drop (nat (s + M)) ws)"
      using q(4) k dd by simp
    have endc: "c_end_char ?c = q + int (length (c_text ?c))"
      using window_chunk_end [of T ws s "s + M" p] q(3) by simp
    have "drop (nat (c_end_char ?c)) ?U = drop (length (c_text ?c)) (drop (nat q) ?U)"
      unfolding endc using q(1) by (simp add: nat_add_distrib add.commute)
    with dq have inv: "drop (nat (c_end_char ?c)) ?U =
                         replicate 1 CHR '' '' @ py_join '' '' (drop (nat (s + M)) ws)" by simp
    have e0: "0 \<le> c_end_char ?c" using endc q(1) by simp
    have m: "nat (?n - (s + M)) < nat (?n - s)" using M lt by linarith
    have s0: "0 \<le> s + M" using less.prems(2) M by simp
    have ov': "ov = 0 \<or> ?n \<le> s + M + M" using ov by simp
    from less.hyps [OF m ov' s0 lt e0 inv, of "acc @ [?c]"]
    obtain cs where cs: "chunk_loop T ws M ov (s + M) (c_end_char ?c) (acc @ [?c])
                           = Some ((acc @ [?c]) @ cs)"
      "cs \<noteq> []" "c_end_char (last cs) = int (length T)"
      by auto
    have "chunk_loop T ws M ov s p acc = Some (acc @ (?c # cs))"
      using chunk_loop_step [OF less.prems(3) lt, of T ov p acc] cs(1) ov by simp
    with cs(2,3) show ?thesis by auto
  qed
qed

lemma leading_run:
  "\<exists>m. space_out text = replicate m CHR '' '' @ dropWhile py_isspace (space_out text)"
proof -
  let ?U = "space_out text"
  have "\<forall>c\<in>set (takeWhile py_isspace ?U). c = CHR '' ''"
    by (metis set_takeWhileD space_out_spaces)
  then have "replicate (length (takeWhile py_isspace ?U)) CHR '' '' = takeWhile py_isspace ?U"
    by (simp add: replicate_length_same)
  then have "?U = replicate (length (takeWhile py_isspace ?U)) CHR '' '' @ dropWhile py_isspace ?U"
    by simp
  then show ?thesis by blast
qed

lemma well_spaced_examples:
  "well_spaced ''a\<newline>b''" "well_spaced '' a b''" "well_spaced ''  a\<newline>b c''"
  "\<not> well_spaced ''a b\<newline>''" "\<not> well_spaced ''a  b''" "\<not> well_spaced '' ''"
  by code_simp+

text \<open>
  A text ending in a newline: the only chunk is \<open>"a b"\<close> with \<open>end_char = 3\<close>, while
  the text has 4 characters.
\<close>

theorem last_chunk_end_counterexample:
  "''a b\<newline>'' \<noteq> []
   \<and> (50::int) < 512
   \<and> chunk_text ''a b\<newline>'' 512 50
       = Some [\<lparr>c_text = ''a b'', c_start_char = 0, c_end_char = 3\<rparr>]
   \<and> c_end_char (last [\<lparr>c_text = ''a b'', c_start_char = 0, c_end_char = 3\<rparr>])
       \<noteq> int (length ''a b\<newline>'')"
  by code_simp

text \<open>
  Claim C4, amended. For a non-empty text with no whitespace after its last word and
  exactly one whitespace character between neighbouring words (leading whitespace of any
  length allowed), \<open>max_tokens > 0\<close>, and either \<open>overlap_tokens = 0\<close> or at most
  \<open>max_tokens\<close> words, chunking returns a non-empty sequence whose last chunk has
  \<open>end_char = len(text)\<close>.
\<close>

theorem last_chunk_end_spaced:
  assumes "text \<noteq> []"
      and "well_spaced text"
      and "0 < max_tokens"
      and "overlap_tokens = 0 \<or> int (length (py_split text)) \<le> max_tokens"
  shows "\<exists>chunks. chunk_text text max_tokens overlap_tokens = Some chunks \<and> chunks \<noteq> [] \<and>
           c_end_char (last chunks) = int (length text)"
proof -
  let ?ws = "py_split text"
  have words: "\<forall>w\<in>set ?ws. w \<noteq> [] \<and> (\<forall>c\<in>set w. \<not> py_isspace c)"
    using py_split_words by blast
  from assms(2) have body: "dropWhile py_isspace (space_out text) = py_join '' '' ?ws"
    and bne0: "dropWhile py_isspace (space_out text) \<noteq> []"
    unfolding well_spaced_def Let_def by blast+
  from body bne0 have bne: "py_join '' '' ?ws \<noteq> []" by simp
  have ne: "?ws \<noteq> []" using bne by (cases ?ws) auto
  from leading_run [of "text"] body obtain m where
    "space_out text = replicate m CHR '' '' @ py_join '' '' ?ws" by auto
  then have inv: "drop (nat 0) (space_out text) =
                    replicate m CHR '' '' @ py_join '' '' (drop (nat 0) ?ws)" by simp
  have ov: "overlap_tokens = 0 \<or> int (length ?ws) \<le> 0 + max_tokens" using assms(4) by simp
  have lt: "0 < int (length ?ws)" using ne by simp
  from chunk_loop_spaced [OF words assms(3) ov _ lt _ inv, of "[]"]
  show ?thesis by (simp add: chunk_text_def)
qed

theorem last_chunk_end_spaced_witness:
  "'' a\<newline>b c\<newline>d'' \<noteq> []
   \<and> well_spaced '' a\<newline>b c\<newline>d''
   \<and> (0::int) < 2
   \<and> (\<exists>chunks. chunk_text '' a\<newline>b c\<newline>d'' 2 0 = Some chunks \<and> chunks \<noteq> [] \<and>
         c_end_char (last chunks) = int (length '' a\<newline>b c\<newline>d''))"
proof -
  have a: "'' a\<newline>b c\<newline>d'' \<noteq> []" by simp
  have b: "well_spaced '' a\<newline>b c\<newline>d''" by code_simp
  have c: "(0::int) < 2" by simp
  have d: "(0::int) = 0 \<or> int (length (py_split '' a\<newline>b c\<newline>d'')) \<le> 2" by simp
  from last_chunk_end_spaced [OF a b c d] a b c show ?thesis by blast
qed

lemma chunk_start_before_end:
  assumes "overlap_tokens < max_tokens" and "0 < max_tokens"
      and "chunk_text text max_tokens overlap_tokens = Some chunks"
      and "c \<in> set chunks"
  shows "c_start_char c < c_end_char c"
proof -
  let ?ws = "py_split text"
  let ?n = "int (length ?ws)"
  let ?d = "max_tokens - overlap_tokens"
  from chunk_loop_windows [OF assms(1), of "text" ?ws 0 0 "[]"] assms(3)
  have w: "\<forall>k<length chunks. int k * ?d < ?n \<and>
              (\<exists>q. chunks ! k = window_chunk text ?ws (int k * ?d)
                       (min (int k * ?d + max_tokens) ?n) q)"
    by (auto simp: chunk_text_def)
  from assms(4) obtain k where k: "k < length chunks" "c = chunks ! k"
    by (metis in_set_conv_nth)
  define s where "s = int k * ?d"
  define e where "e = min (s + max_tokens) ?n"
  from w k obtain q where lt: "s < ?n" and c: "c = window_chunk text ?ws s e q"
    unfolding s_def e_def by auto
  have s0: "0 \<le> s" using assms(1) by (simp add: s_def)
  have se: "s < e" "e \<le> ?n" using lt assms(2) by (simp_all add: e_def)
  have win: "py_slice ?ws s e = take (nat (e - s)) (drop (nat s) ?ws)"
    using s0 se by (simp add: py_slice_window)
  have "nat s < length ?ws" using lt s0 by linarith
  moreover have "0 < nat (e - s)" using se by simp
  ultimately have ne: "take (nat (e - s)) (drop (nat s) ?ws) \<noteq> []" by simp
  then have "prefix (hd (py_slice ?ws s e)) (py_join '' '' (py_slice ?ws s e))"
    unfolding win by (rule prefix_hd_join)
  moreover have "hd (py_slice ?ws s e) \<in> set ?ws"
    unfolding win using ne by (metis hd_in_set in_set_dropD in_set_takeD)
  ultimately have "py_join '' '' (py_slice ?ws s e) \<noteq> []"
    using py_split_words by fastforce
  then have "0 < int (length (c_text c))" unfolding c by simp
  with window_chunk_end [of "text" ?ws s e q] show ?thesis unfolding c by linarith
qed

text \<open>
  Claim C5. Chunk start offsets are meant to be non-decreasing; on \<open>"a b c d"\<close> with
  \<open>max_tokens = 3\<close> and \<open>overlap_tokens = 1\<close> the second chunk starts at a word that
  lies before the search position, the search fails, and the starts are \<open>0, -1\<close>.
\<close>

theorem chunk_starts_decrease:
  "(1::int) < 3
   \<and> chunk_text ''a b c d'' 3 1
       = Some [\<lparr>c_text = ''a b c'', c_start_char = 0, c_end_char = 5\<rparr>,
               \<lparr>c_text = ''c d'', c_start_char = -1, c_end_char = 2\<rparr>]
   \<and> \<not> (0::int) \<le> -1"
  by code_simp



lemma chunk_starts_decrease_default:
  "map_option (map (\<lambda>c. (c_start_char c, c_end_char c))) (chunk_text long_text 512 50)
     = Some [(0, 1023), (-1, 100)]"
  by code_simp

end
